theory Spec2Isabelle
  imports Complex_Main "HOL-Library.AList"
begin

section \<open>Sovereign bond marketplace: pricing, yield, trade settlement, market statistics\<close>

text \<open>
  A shallow embedding of \<^verbatim>\<open>backend/server.py\<close>.

  Numbers. A Python \<^verbatim>\<open>float\<close> is modelled as a \<^typ>\<open>real\<close> and every arithmetic
  operation as the exact one: the binary64 rounding error of each operation, infinities
  and NaN are outside the model. A Python \<^verbatim>\<open>int\<close> is an \<^typ>\<open>int\<close>.

  Effects. The three MongoDB collections are the fields of the record \<open>db\<close>; a request
  handler takes the store and returns its outcome together with the store it leaves
  behind, so that a handler which raises after a write still shows the write. The clock
  and the UUID generator are read from the record \<open>env\<close>.
\<close>

subsection \<open>Errors\<close>

text \<open>
  \<open>HTTPException\<close> carries the status code and the detail text of the source's
  \<^verbatim>\<open>raise HTTPException(...)\<close>. The other constructors are the Python exceptions that
  the handlers do not catch (FastAPI answers them with status 500).
\<close>

datatype error =
  HTTPException int string
| ZeroDivisionError
| ValueError
| ValidationError

subsection \<open>Python's \<^verbatim>\<open>round(x, 2)\<close>\<close>

text \<open>
  \<^verbatim>\<open>round\<close> rounds to the nearest value and a tie to the even neighbour.
  \<open>round_half_even\<close> is \<^verbatim>\<open>round(x)\<close> and \<open>round2\<close> is \<^verbatim>\<open>round(x, 2)\<close>, both on the
  exact value of \<open>x\<close>.
\<close>

definition round_half_even :: "real \<Rightarrow> int" where
  "round_half_even x =
     (let f = \<lfloor>x\<rfloor>; r = x - of_int f
      in if r < 1 / 2 then f
         else if 1 / 2 < r then f + 1
         else if even f then f else f + 1)"

definition round2 :: "real \<Rightarrow> real" where
  "round2 x = of_int (round_half_even (x * 100)) / 100"

subsection \<open>Dates: \<^verbatim>\<open>datetime.strptime(s, "%Y-%m-%d")\<close> and \<^verbatim>\<open>timedelta.days\<close>\<close>

text \<open>
  A naive \<^verbatim>\<open>datetime\<close> is the number of microseconds since the midnight that begins
  day 0 of the proleptic Gregorian ordinal (day 1 is 0001-01-01), a \<^verbatim>\<open>timedelta\<close> is a
  number of microseconds. \<^verbatim>\<open>timedelta.days\<close> is the normalised day component, the
  floor of the difference in days.
\<close>

type_synonym datetime = int
type_synonym timedelta = int

definition usec_per_day :: int where
  "usec_per_day = 86400000000"

definition timedelta_days :: "timedelta \<Rightarrow> int" where
  "timedelta_days td = td div usec_per_day"

definition is_leap :: "int \<Rightarrow> bool" where
  "is_leap y = (y mod 4 = 0 \<and> (if y mod 100 = 0 then y mod 400 = 0 else True))"

definition days_before_year :: "int \<Rightarrow> int" where
  "days_before_year year =
     (let y = year - 1 in y * 365 + y div 4 - y div 100 + y div 400)"

definition days_in_month :: "int \<Rightarrow> int \<Rightarrow> int" where
  "days_in_month year month =
     (if month = 2 \<and> is_leap year then 29
      else [31, 28, 31, 30, 31, 30, 31, 31, 30, 31, 30, 31] ! nat (month - 1))"

definition days_before_month :: "int \<Rightarrow> int \<Rightarrow> int" where
  "days_before_month year month =
     [0, 31, 59, 90, 120, 151, 181, 212, 243, 273, 304, 334] ! nat (month - 1)
       + (if 2 < month \<and> is_leap year then 1 else 0)"

definition ymd2ord :: "int \<Rightarrow> int \<Rightarrow> int \<Rightarrow> int" where
  "ymd2ord year month day = days_before_year year + days_before_month year month + day"

text \<open>\<open>mk_datetime\<close> is the constructor \<^verbatim>\<open>datetime(year, month, day, hour, minute, second)\<close>
  on fields that are in range.\<close>

definition mk_datetime :: "int \<Rightarrow> int \<Rightarrow> int \<Rightarrow> int \<Rightarrow> int \<Rightarrow> int \<Rightarrow> datetime" where
  "mk_datetime year month day hour minute second =
     ymd2ord year month day * usec_per_day + ((hour * 60 + minute) * 60 + second) * 1000000"

definition digit :: "char \<Rightarrow> int option" where
  "digit c = (let n = (of_char c :: nat)
              in if 48 \<le> n \<and> n \<le> 57 then Some (int n - 48) else None)"

text \<open>
  The directives of the format, as the regular expressions of CPython's \<^verbatim>\<open>_strptime\<close>
  read them on ASCII text: \<^verbatim>\<open>%m\<close> is \<^verbatim>\<open>1[0-2]|0[1-9]|[1-9]\<close> and \<^verbatim>\<open>%d\<close> is
  \<^verbatim>\<open>3[0-1]|[1-2]\d|0[1-9]|[1-9]| [1-9]\<close>.
\<close>

definition parse_month :: "string \<Rightarrow> int option" where
  "parse_month s =
     (case s of
        [a] \<Rightarrow> (case digit a of Some n \<Rightarrow> if 1 \<le> n then Some n else None | None \<Rightarrow> None)
      | [a, b] \<Rightarrow>
          (case (digit a, digit b) of
             (Some m, Some n) \<Rightarrow>
               if m = 1 \<and> n \<le> 2 then Some (10 + n)
               else if m = 0 \<and> 1 \<le> n then Some n
               else None
           | _ \<Rightarrow> None)
      | _ \<Rightarrow> None)"

definition parse_day :: "string \<Rightarrow> int option" where
  "parse_day s =
     (case s of
        [a] \<Rightarrow> (case digit a of Some n \<Rightarrow> if 1 \<le> n then Some n else None | None \<Rightarrow> None)
      | [a, b] \<Rightarrow>
          (case (digit a, digit b) of
             (Some m, Some n) \<Rightarrow>
               if m = 3 \<and> n \<le> 1 then Some (30 + n)
               else if m = 1 \<or> m = 2 then Some (10 * m + n)
               else if m = 0 \<and> 1 \<le> n then Some n
               else None
           | (None, Some n) \<Rightarrow> if a = CHR '' '' \<and> 1 \<le> n then Some n else None
           | _ \<Rightarrow> None)
      | _ \<Rightarrow> None)"

text \<open>
  \<^verbatim>\<open>datetime.strptime(s, "%Y-%m-%d")\<close>: four digits, a hyphen, a month, a hyphen, a day,
  and nothing after it; the three numbers must form a date of year 1 or later. Every
  failure is a \<^verbatim>\<open>ValueError\<close>. The result is the midnight that begins the day.
\<close>

definition strptime_ymd :: "string \<Rightarrow> error + datetime" where
  "strptime_ymd s =
     (case s of
        y1 # y2 # y3 # y4 # sep # rest \<Rightarrow>
          (case (digit y1, digit y2, digit y3, digit y4) of
             (Some a, Some b, Some c, Some d) \<Rightarrow>
               (if sep = CHR ''-'' then
                  (case dropWhile (\<lambda>c. c \<noteq> CHR ''-'') rest of
                     [] \<Rightarrow> Inl ValueError
                   | _ # ds \<Rightarrow>
                       (case (parse_month (takeWhile (\<lambda>c. c \<noteq> CHR ''-'') rest), parse_day ds) of
                          (Some month, Some day) \<Rightarrow>
                            (let year = ((a * 10 + b) * 10 + c) * 10 + d
                             in if 1 \<le> year \<and> day \<le> days_in_month year month
                                then Inr (ymd2ord year month day * usec_per_day)
                                else Inl ValueError)
                        | _ \<Rightarrow> Inl ValueError))
                else Inl ValueError)
           | _ \<Rightarrow> Inl ValueError)
      | _ \<Rightarrow> Inl ValueError)"

subsection \<open>Models\<close>

text \<open>
  The pydantic model \<^verbatim>\<open>Bond\<close>. The field \<open>available_supply\<close> is declared \<^verbatim>\<open>int\<close>, but
  the document in the store holds the number that \<^verbatim>\<open>execute_trade\<close> wrote with
  \<^verbatim>\<open>$set\<close>, an \<^verbatim>\<open>int\<close> plus or minus a \<^verbatim>\<open>float\<close>, which is a \<^verbatim>\<open>float\<close>. The record is
  the stored document, with \<open>available_supply\<close> a number; \<open>Bond_validate\<close> below is
  \<^verbatim>\<open>Bond(**bond_data)\<close>, which makes it whole again.
\<close>

record Bond =
  id :: string
  country :: string
  country_code :: string
  face_value :: real
  coupon_rate :: real
  maturity_date :: string
  issue_date :: string
  current_price :: real
  risk_factor :: real
  currency :: string
  total_supply :: int
  available_supply :: real

text \<open>
  How pydantic reads a \<^verbatim>\<open>float\<close> into an \<^verbatim>\<open>int\<close> field depends on its major version,
  which the source does not fix: version 1 calls \<^verbatim>\<open>int(v)\<close>, which truncates towards
  zero; version 2 accepts a float without fractional part and rejects any other. The two
  agree on every whole number.
\<close>

datatype pydantic = V1 | V2

definition int_field :: "pydantic \<Rightarrow> real \<Rightarrow> error + int" where
  "int_field pv v =
     (case pv of
        V1 \<Rightarrow> Inr (if 0 \<le> v then \<lfloor>v\<rfloor> else \<lceil>v\<rceil>)
      | V2 \<Rightarrow> if of_int \<lfloor>v\<rfloor> = v then Inr \<lfloor>v\<rfloor> else Inl ValidationError)"

definition Bond_validate :: "pydantic \<Rightarrow> Bond \<Rightarrow> error + Bond" where
  "Bond_validate pv bond_data =
     (case int_field pv (available_supply bond_data) of
        Inl e \<Rightarrow> Inl e
      | Inr n \<Rightarrow> Inr (bond_data\<lparr>available_supply := of_int n\<rparr>))"

subsection \<open>Risk engine\<close>

text \<open>\<^verbatim>\<open>calculate_dynamic_yield(bond)\<close>; \<open>now\<close> is what \<^verbatim>\<open>datetime.now()\<close> returns.\<close>

definition calculate_dynamic_yield :: "Bond \<Rightarrow> datetime \<Rightarrow> error + real" where
  "calculate_dynamic_yield bond now =
     (let base_yield = coupon_rate bond;
          risk_adjusted_yield = base_yield * (1 + risk_factor bond / 100)
      in case strptime_ymd (maturity_date bond) of
           Inl e \<Rightarrow> Inl e
         | Inr maturity \<Rightarrow>
             (let years_to_maturity = of_int (timedelta_days (maturity - now)) / 365.25;
                  maturity_adjustment = max 0 (years_to_maturity - 2) * 0.3
              in Inr (round2 (risk_adjusted_yield + maturity_adjustment))))"

text \<open>\<^verbatim>\<open>calculate_bond_price(bond, market_demand)\<close>; the division raises when
  \<open>total_supply\<close> is 0.\<close>

definition calculate_bond_price :: "Bond \<Rightarrow> real \<Rightarrow> error + real" where
  "calculate_bond_price bond market_demand =
     (let base_price = current_price bond
      in if total_supply bond = 0 then Inl ZeroDivisionError
         else
           (let scarcity_factor = 1 - available_supply bond / of_int (total_supply bond);
                scarcity_adjustment = scarcity_factor * 50;
                risk_discount = risk_factor bond * 10;
                demand_adjustment = (market_demand - 1) * 25;
                final_price = base_price + scarcity_adjustment - risk_discount + demand_adjustment
            in Inr (max final_price (face_value bond * 0.7))))"

text \<open>The seed list \<^verbatim>\<open>MOCK_BONDS\<close>; the identifiers are assigned when the catalog is
  seeded, and are empty here.\<close>

definition MOCK_BONDS :: "Bond list" where
  "MOCK_BONDS =
     [\<lparr>Bond.id = [], country = ''Ghana'', country_code = ''GH'', face_value = 1000,
       coupon_rate = 7.5, maturity_date = ''2029-12-31'', issue_date = ''2024-01-01'',
       current_price = 950, risk_factor = 2.3, currency = ''USD'', total_supply = 10000,
       available_supply = 7500\<rparr>,
      \<lparr>Bond.id = [], country = ''Nigeria'', country_code = ''NG'', face_value = 1000,
       coupon_rate = 8.2, maturity_date = ''2026-06-30'', issue_date = ''2023-07-01'',
       current_price = 920, risk_factor = 4.1, currency = ''USD'', total_supply = 15000,
       available_supply = 12000\<rparr>,
      \<lparr>Bond.id = [], country = ''Kenya'', country_code = ''KE'', face_value = 1000,
       coupon_rate = 6.8, maturity_date = ''2028-03-15'', issue_date = ''2023-03-15'',
       current_price = 965, risk_factor = 1.8, currency = ''USD'', total_supply = 8000,
       available_supply = 5500\<rparr>,
      \<lparr>Bond.id = [], country = ''South Africa'', country_code = ''ZA'', face_value = 1000,
       coupon_rate = 9.1, maturity_date = ''2027-09-30'', issue_date = ''2023-10-01'',
       current_price = 890, risk_factor = 5.2, currency = ''USD'', total_supply = 20000,
       available_supply = 18500\<rparr>]"

subsection \<open>The store and the request models\<close>

text \<open>\<^verbatim>\<open>Portfolio.bonds\<close> is a \<^verbatim>\<open>dict\<close>: an association list in insertion order, which is
  the order in which the settlement loop visits the holdings.\<close>

record Portfolio =
  id :: string
  user_address :: string
  bonds :: "(string \<times> real) list"
  total_value :: real
  total_yield :: real
  created_at :: datetime

record BondTransaction =
  id :: string
  user_address :: string
  bond_id :: string
  transaction_type :: string
  quantity :: real
  price_per_bond :: real
  total_amount :: real
  timestamp :: datetime

record TradeRequest =
  user_address :: string
  bond_id :: string
  quantity :: real
  transaction_type :: string

text \<open>The collections \<^verbatim>\<open>db.bonds\<close>, \<^verbatim>\<open>db.transactions\<close> and \<^verbatim>\<open>db.portfolios\<close>, each in
  insertion order.\<close>

record db =
  bonds :: "Bond list"
  transactions :: "BondTransaction list"
  portfolios :: "Portfolio list"

text \<open>
  What a request reads from outside the store: the pydantic version in use, the local
  clock (\<^verbatim>\<open>datetime.now()\<close>), the UTC clock (\<^verbatim>\<open>datetime.utcnow()\<close>), and the two
  identifiers that \<^verbatim>\<open>uuid.uuid4()\<close> would give to a new transaction and to a new
  portfolio. One request reads each clock as one instant.
\<close>

record env =
  pydantic_version :: pydantic
  now :: datetime
  utcnow :: datetime
  uuid4_transaction :: string
  uuid4_portfolio :: string

text \<open>The body of the successful response of \<^verbatim>\<open>POST /trade\<close>.\<close>

record TradeReceipt =
  success :: bool
  transaction_id :: string
  trade_price :: real
  total_amount :: real
  new_portfolio_value :: real

subsection \<open>Store operations\<close>

text \<open>\<^verbatim>\<open>db.bonds.find_one({"id": i})\<close> and \<^verbatim>\<open>db.portfolios.find_one({"user_address": u})\<close>:
  the first matching document.\<close>

definition find_one_bond :: "Bond list \<Rightarrow> string \<Rightarrow> Bond option" where
  "find_one_bond bs i = find (\<lambda>b. Bond.id b = i) bs"

definition find_one_portfolio :: "Portfolio list \<Rightarrow> string \<Rightarrow> Portfolio option" where
  "find_one_portfolio ps u = find (\<lambda>p. Portfolio.user_address p = u) ps"

text \<open>\<^verbatim>\<open>db.bonds.update_one({"id": i}, {"$set": {"available_supply": v}})\<close>: the first
  matching document is updated.\<close>

fun update_one_available_supply :: "Bond list \<Rightarrow> string \<Rightarrow> real \<Rightarrow> Bond list" where
  "update_one_available_supply [] i v = []"
| "update_one_available_supply (b # bs) i v =
     (if Bond.id b = i then b\<lparr>available_supply := v\<rparr> # bs
      else b # update_one_available_supply bs i v)"

text \<open>\<^verbatim>\<open>db.portfolios.replace_one({"user_address": u}, doc, upsert=True)\<close>.\<close>

fun replace_one_upsert :: "Portfolio list \<Rightarrow> string \<Rightarrow> Portfolio \<Rightarrow> Portfolio list" where
  "replace_one_upsert [] u doc = [doc]"
| "replace_one_upsert (p # ps) u doc =
     (if Portfolio.user_address p = u then doc # ps
      else p # replace_one_upsert ps u doc)"

subsection \<open>Trade settlement\<close>

text \<open>
  Lines 271 to 280 of \<^verbatim>\<open>execute_trade\<close>, on the \<^verbatim>\<open>dict\<close> of holdings: a missing key is
  entered with 0, a buy adds the quantity, anything else subtracts it and deletes the
  entry when it is no longer positive.
\<close>

definition update_holdings ::
  "(string \<times> real) list \<Rightarrow> string \<Rightarrow> string \<Rightarrow> real \<Rightarrow> (string \<times> real) list" where
  "update_holdings holdings bid ttype qty =
     (let bonds0 = (if map_of holdings bid = None then AList.update bid 0 holdings
                    else holdings);
          held = (case map_of bonds0 bid of Some q \<Rightarrow> q | None \<Rightarrow> 0)
      in if ttype = ''buy'' then AList.update bid (held + qty) bonds0
         else if held - qty \<le> 0 then AList.delete bid bonds0
         else AList.update bid (held - qty) bonds0)"

text \<open>
  The loop of lines 286 to 292 over \<^verbatim>\<open>portfolio.bonds.items()\<close>, with the running
  \<^verbatim>\<open>total_value\<close> and \<^verbatim>\<open>total_yield\<close> as the accumulator \<open>(tv, ty)\<close>. A holding whose bond is not in
  the catalog is skipped.
\<close>

fun recalculate ::
  "env \<Rightarrow> Bond list \<Rightarrow> (string \<times> real) list \<Rightarrow> real \<times> real \<Rightarrow> error + real \<times> real" where
  "recalculate e bs [] acc = Inr acc"
| "recalculate e bs ((bid, qty) # rest) (tv, ty) =
     (case find_one_bond bs bid of
        None \<Rightarrow> recalculate e bs rest (tv, ty)
      | Some bond_info \<Rightarrow>
          (case Bond_validate (pydantic_version e) bond_info of
             Inl err \<Rightarrow> Inl err
           | Inr bond_obj \<Rightarrow>
               (let tv' = tv + current_price bond_obj * qty
                in case calculate_dynamic_yield bond_obj (now e) of
                     Inl err \<Rightarrow> Inl err
                   | Inr bond_yield \<Rightarrow>
                       recalculate e bs rest
                         (tv',
                          ty + (if 0 < tv'
                                then bond_yield * (current_price bond_obj * qty) / tv'
                                else 0)))))"

text \<open>
  \<^verbatim>\<open>execute_trade(trade)\<close>. The result pairs the outcome with the store after the call:
  the writes of lines 250 and 258 stay in the store when the loop raises after them.
\<close>

definition execute_trade :: "env \<Rightarrow> db \<Rightarrow> TradeRequest \<Rightarrow> (error + TradeReceipt) \<times> db" where
  "execute_trade e d trade =
     (case find_one_bond (db.bonds d) (TradeRequest.bond_id trade) of
        None \<Rightarrow> (Inl (HTTPException 404 ''Bond not found''), d)
      | Some bond_data \<Rightarrow>
     (case Bond_validate (pydantic_version e) bond_data of
        Inl err \<Rightarrow> (Inl err, d)
      | Inr bond \<Rightarrow>
     if TradeRequest.transaction_type trade = ''buy''
        \<and> available_supply bond < TradeRequest.quantity trade
     then (Inl (HTTPException 400 ''Insufficient bond supply''), d)
     else
     (case calculate_bond_price bond 1 of
        Inl err \<Rightarrow> (Inl err, d)
      | Inr price \<Rightarrow>
     (let amount = price * TradeRequest.quantity trade;
          transaction =
            \<lparr>BondTransaction.id = uuid4_transaction e,
             user_address = TradeRequest.user_address trade,
             bond_id = TradeRequest.bond_id trade,
             transaction_type = TradeRequest.transaction_type trade,
             quantity = TradeRequest.quantity trade,
             price_per_bond = price,
             total_amount = amount,
             timestamp = utcnow e\<rparr>;
          d1 = d\<lparr>transactions := transactions d @ [transaction]\<rparr>;
          new_available_supply =
            (if TradeRequest.transaction_type trade = ''buy''
             then available_supply bond - TradeRequest.quantity trade
             else available_supply bond + TradeRequest.quantity trade);
          d2 = d1\<lparr>db.bonds :=
                  update_one_available_supply (db.bonds d1) (TradeRequest.bond_id trade)
                    new_available_supply\<rparr>;
          portfolio =
            (case find_one_portfolio (portfolios d2) (TradeRequest.user_address trade) of
               Some portfolio_data \<Rightarrow> portfolio_data
             | None \<Rightarrow>
                 \<lparr>Portfolio.id = uuid4_portfolio e,
                  user_address = TradeRequest.user_address trade,
                  bonds = [], total_value = 0, total_yield = 0, created_at = utcnow e\<rparr>);
          holdings =
            update_holdings (Portfolio.bonds portfolio) (TradeRequest.bond_id trade)
              (TradeRequest.transaction_type trade) (TradeRequest.quantity trade)
      in case recalculate e (db.bonds d2) holdings (0, 0) of
           Inl err \<Rightarrow> (Inl err, d2)
         | Inr (tv, ty) \<Rightarrow>
             (let portfolio' =
                    portfolio\<lparr>Portfolio.bonds := holdings,
                              total_value := round2 tv,
                              total_yield := round2 ty\<rparr>;
                  d3 = d2\<lparr>portfolios :=
                          replace_one_upsert (portfolios d2)
                            (TradeRequest.user_address trade) portfolio'\<rparr>
              in (Inr \<lparr>success = True,
                       transaction_id = uuid4_transaction e,
                       trade_price = price,
                       total_amount = amount,
                       new_portfolio_value = total_value portfolio'\<rparr>,
                  d3))))))"

subsection \<open>Market statistics\<close>

record MarketStats =
  total_market_value :: real
  total_volume_24h :: real
  average_yield :: real
  active_bonds :: nat
  total_transactions :: nat

text \<open>The generator \<^verbatim>\<open>calculate_dynamic_yield(Bond(**bond)) for bond in bonds\<close>, which
  stops at the first exception.\<close>

fun dynamic_yields :: "env \<Rightarrow> Bond list \<Rightarrow> error + real list" where
  "dynamic_yields e [] = Inr []"
| "dynamic_yields e (bond_data # bs) =
     (case Bond_validate (pydantic_version e) bond_data of
        Inl err \<Rightarrow> Inl err
      | Inr bond \<Rightarrow>
          (case calculate_dynamic_yield bond (now e) of
             Inl err \<Rightarrow> Inl err
           | Inr y \<Rightarrow>
               (case dynamic_yields e bs of
                  Inl err \<Rightarrow> Inl err
                | Inr ys \<Rightarrow> Inr (y # ys))))"

text \<open>\<^verbatim>\<open>get_market_stats()\<close>; \<^verbatim>\<open>find().to_list(1000)\<close> returns the first 1000 documents
  of a collection.\<close>

definition get_market_stats :: "env \<Rightarrow> db \<Rightarrow> error + MarketStats" where
  "get_market_stats e d =
     (let bs = take 1000 (db.bonds d);
          txs = take 1000 (transactions d);
          market_value = sum_list (map (\<lambda>b. current_price b * of_int (total_supply b)) bs);
          volume_24h =
            sum_list (map BondTransaction.total_amount
              (filter (\<lambda>tx. now e - timestamp tx < 1 * usec_per_day) txs))
      in case (if bs \<noteq> [] then
                 (case dynamic_yields e bs of
                    Inl err \<Rightarrow> Inl err
                  | Inr ys \<Rightarrow> Inr (sum_list ys / of_nat (length bs)))
               else Inr 0) of
           Inl err \<Rightarrow> Inl err
         | Inr avg_yield \<Rightarrow>
             Inr \<lparr>total_market_value = round2 market_value,
                  total_volume_24h = round2 volume_24h,
                  average_yield = round2 avg_yield,
                  active_bonds = length bs,
                  total_transactions = length txs\<rparr>)"

subsection \<open>The formulas of the specification\<close>

text \<open>
  The Pricing Engine as the specification words it (section 4.2, steps 1 to 5, the last
  step rounding to 2 decimal places), for comparison with \<open>calculate_bond_price\<close>.
\<close>

definition spec_price :: "Bond \<Rightarrow> real \<Rightarrow> real" where
  "spec_price bond demand_signal =
     round2 (max (current_price bond
                   + (1 - available_supply bond / of_int (total_supply bond)) * 50
                   - risk_factor bond * 10
                   + (demand_signal - 1) * 25)
                 (face_value bond * 0.7))"

text \<open>
  The Yield Engine as the specification words it (section 4.3, steps 1 to 4), for a
  maturity date and a current date that are given as instants; the difference in days is
  the whole number of days between them, not clamped at 0.
\<close>

definition spec_years_to_maturity :: "datetime \<Rightarrow> datetime \<Rightarrow> real" where
  "spec_years_to_maturity maturity current = of_int ((maturity - current) div usec_per_day) / 365.25"

definition spec_yield :: "Bond \<Rightarrow> datetime \<Rightarrow> datetime \<Rightarrow> real" where
  "spec_yield bond maturity current =
     round2 (coupon_rate bond * (1 + risk_factor bond / 100)
             + max 0 (spec_years_to_maturity maturity current - 2) * 0.3)"

subsection \<open>Concrete states\<close>

text \<open>The seeded catalog, with short identifiers in place of the UUIDs.\<close>

definition seeded_bonds :: "Bond list" where
  "seeded_bonds = map2 (\<lambda>i b. b\<lparr>Bond.id := i\<rparr>) [''gh'', ''ng'', ''ke'', ''za''] MOCK_BONDS"

definition kenya :: Bond where
  "kenya = seeded_bonds ! 2"

text \<open>A bond that matured in 2020 and has a negative coupon rate.\<close>

definition negative_coupon_bond :: Bond where
  "negative_coupon_bond =
     \<lparr>Bond.id = ''nc'', country = ''Ghana'', country_code = ''GH'', face_value = 1000,
      coupon_rate = - 1, maturity_date = ''2020-12-31'', issue_date = ''2015-01-01'',
      current_price = 950, risk_factor = 0, currency = ''USD'', total_supply = 10000,
      available_supply = 7500\<rparr>"

text \<open>Noon of 3 November 2026 on the local clock, 11:00 on the UTC clock.\<close>

definition env_2026 :: "pydantic \<Rightarrow> env" where
  "env_2026 pv =
     \<lparr>pydantic_version = pv,
      now = mk_datetime 2026 11 3 12 0 0,
      utcnow = mk_datetime 2026 11 3 11 0 0,
      uuid4_transaction = ''tx-new'',
      uuid4_portfolio = ''pf-new''\<rparr>"

text \<open>The seeded store before any trade.\<close>

definition db_seed :: db where
  "db_seed = \<lparr>db.bonds = seeded_bonds, transactions = [], portfolios = []\<rparr>"

text \<open>Trade requests of one user.\<close>

definition trade_of :: "string \<Rightarrow> real \<Rightarrow> string \<Rightarrow> TradeRequest" where
  "trade_of bid qty ttype =
     \<lparr>TradeRequest.user_address = ''0xabc'', bond_id = bid, quantity = qty,
      transaction_type = ttype\<rparr>"

text \<open>The store after the user has bought 5 units of the Ghana bond from the seeded
  store, at the instants of \<open>env_2026\<close>.\<close>

definition tx_bought :: BondTransaction where
  "tx_bought =
     \<lparr>BondTransaction.id = ''tx-new'', user_address = ''0xabc'', bond_id = ''gh'',
      transaction_type = ''buy'', quantity = 5, price_per_bond = 939.5,
      total_amount = 4697.5, timestamp = mk_datetime 2026 11 3 11 0 0\<rparr>"

definition db_bought :: db where
  "db_bought =
     \<lparr>db.bonds = update_one_available_supply seeded_bonds ''gh'' 7495,
      transactions = [tx_bought],
      portfolios =
        [\<lparr>Portfolio.id = ''pf-new'', user_address = ''0xabc'', bonds = [(''gh'', 5)],
          total_value = 4750, total_yield = 8.02,
          created_at = mk_datetime 2026 11 3 11 0 0\<rparr>]\<rparr>"

text \<open>A store whose transaction log holds 1001 records.\<close>

definition db_long_log :: db where
  "db_long_log = db_bought\<lparr>transactions := replicate 1001 tx_bought\<rparr>"

subsection \<open>Notions used in the statements\<close>

text \<open>The bound on the supply of a stored bond.\<close>

definition within_supply :: "Bond \<Rightarrow> bool" where
  "within_supply b = (0 \<le> available_supply b \<and> available_supply b \<le> of_int (total_supply b))"

text \<open>What a user holds of a bond: the entry of the user's portfolio, 0 without one.\<close>

definition holding :: "db \<Rightarrow> string \<Rightarrow> string \<Rightarrow> real" where
  "holding d u bid =
     (case find_one_portfolio (portfolios d) u of
        None \<Rightarrow> 0
      | Some p \<Rightarrow> (case map_of (Portfolio.bonds p) bid of None \<Rightarrow> 0 | Some q \<Rightarrow> q))"

text \<open>A stored bond that validates and whose maturity date parses, so that the Yield
  Engine returns on it.\<close>

definition bond_ok :: "env \<Rightarrow> Bond \<Rightarrow> bool" where
  "bond_ok e b =
     (case Bond_validate (pydantic_version e) b of
        Inl err \<Rightarrow> False
      | Inr bond \<Rightarrow>
          (case calculate_dynamic_yield bond (now e) of Inl err \<Rightarrow> False | Inr y \<Rightarrow> True))"

text \<open>
  The portfolio yield as the specification words it (section 4.4, step 9): the average
  of the yields of the holdings, each weighted by the share of its value in the total
  value, and 0 when the total value is 0. The argument lists the pairs of yield and value
  of the holdings.
\<close>

definition spec_total_yield :: "(real \<times> real) list \<Rightarrow> real" where
  "spec_total_yield yvs =
     (let total = sum_list (map snd yvs)
      in if total = 0 then 0 else sum_list (map (\<lambda>(y, v). y * (v / total)) yvs))"

section \<open>Properties\<close>

subsection \<open>Evaluation\<close>

lemmas date_defs =
  strptime_ymd_def digit_def parse_month_def parse_day_def days_in_month_def is_leap_def
  ymd2ord_def days_before_year_def days_before_month_def usec_per_day_def
  timedelta_days_def mk_datetime_def

lemmas round_defs = round2_def round_half_even_def

lemma seeded_bonds_eq:
  "seeded_bonds =
     [\<lparr>Bond.id = ''gh'', country = ''Ghana'', country_code = ''GH'', face_value = 1000,
       coupon_rate = 7.5, maturity_date = ''2029-12-31'', issue_date = ''2024-01-01'',
       current_price = 950, risk_factor = 2.3, currency = ''USD'', total_supply = 10000,
       available_supply = 7500\<rparr>,
      \<lparr>Bond.id = ''ng'', country = ''Nigeria'', country_code = ''NG'', face_value = 1000,
       coupon_rate = 8.2, maturity_date = ''2026-06-30'', issue_date = ''2023-07-01'',
       current_price = 920, risk_factor = 4.1, currency = ''USD'', total_supply = 15000,
       available_supply = 12000\<rparr>,
      \<lparr>Bond.id = ''ke'', country = ''Kenya'', country_code = ''KE'', face_value = 1000,
       coupon_rate = 6.8, maturity_date = ''2028-03-15'', issue_date = ''2023-03-15'',
       current_price = 965, risk_factor = 1.8, currency = ''USD'', total_supply = 8000,
       available_supply = 5500\<rparr>,
      \<lparr>Bond.id = ''za'', country = ''South Africa'', country_code = ''ZA'', face_value = 1000,
       coupon_rate = 9.1, maturity_date = ''2027-09-30'', issue_date = ''2023-10-01'',
       current_price = 890, risk_factor = 5.2, currency = ''USD'', total_supply = 20000,
       available_supply = 18500\<rparr>]"
  by (simp add: seeded_bonds_def MOCK_BONDS_def)

lemma kenya_eq:
  "kenya =
     \<lparr>Bond.id = ''ke'', country = ''Kenya'', country_code = ''KE'', face_value = 1000,
      coupon_rate = 6.8, maturity_date = ''2028-03-15'', issue_date = ''2023-03-15'',
      current_price = 965, risk_factor = 1.8, currency = ''USD'', total_supply = 8000,
      available_supply = 5500\<rparr>"
  by (simp add: kenya_def seeded_bonds_eq)

lemma kenya_price: "calculate_bond_price kenya 1 = Inr 962.625"
  by (simp add: calculate_bond_price_def kenya_eq)

subsection \<open>Rounding is monotone\<close>

lemma round_half_even_bounds:
  "\<lfloor>x\<rfloor> \<le> round_half_even x" "round_half_even x \<le> \<lfloor>x\<rfloor> + 1"
  by (simp_all add: round_half_even_def Let_def)

lemma round_half_even_mono:
  assumes "x \<le> y"
  shows "round_half_even x \<le> round_half_even y"
proof (cases "\<lfloor>x\<rfloor> = \<lfloor>y\<rfloor>")
  case True
  with assms show ?thesis
    by (auto simp add: round_half_even_def Let_def)
next
  case False
  from assms have "\<lfloor>x\<rfloor> \<le> \<lfloor>y\<rfloor>" by (rule floor_mono)
  with False have "\<lfloor>x\<rfloor> + 1 \<le> \<lfloor>y\<rfloor>" by simp
  with round_half_even_bounds(2) [of x] round_half_even_bounds(1) [of y]
  show ?thesis by linarith
qed

lemma round2_mono: "x \<le> y \<Longrightarrow> round2 x \<le> round2 y"
  unfolding round2_def
  by (intro divide_right_mono iffD2 [OF of_int_le_iff] round_half_even_mono) simp_all

subsection \<open>Pricing Engine\<close>

text \<open>
  Claim C3. For every bond and every demand signal, the price that
  \<open>calculate_bond_price\<close> returns is at least 0.7 times the face value. The function
  returns a price for every bond whose \<open>total_supply\<close> is not 0; for a \<open>total_supply\<close>
  of 0 the division raises \<^verbatim>\<open>ZeroDivisionError\<close> and there is no price.
\<close>

theorem price_floor:
  "(case calculate_bond_price bond market_demand of
      Inr price \<Rightarrow> face_value bond * 0.7 \<le> price
    | Inl err \<Rightarrow> err = ZeroDivisionError \<and> total_supply bond = 0)"
  by (simp add: calculate_bond_price_def Let_def)

theorem price_floor_witness:
  "calculate_bond_price kenya 1 = Inr 962.625 \<and> face_value kenya * 0.7 \<le> 962.625"
  using price_floor [of kenya 1] by (simp add: kenya_price)

text \<open>
  Claim C4, as stated: the Pricing Engine returns the maximum of the raw price and the
  floor, rounded to 2 decimal places. It fails on the seeded Kenya bond with the default
  demand signal: the function returns 962.625, and the rounded value is 962.62.
\<close>

theorem price_not_rounded_counterexample:
  "calculate_bond_price kenya 1 = Inr 962.625 \<and> spec_price kenya 1 = 962.62"
  by (simp add: kenya_price) (simp add: spec_price_def kenya_eq round_defs)

text \<open>
  Claim C4, amended. For every bond with a \<open>total_supply\<close> other than 0 and every demand
  signal, \<open>calculate_bond_price\<close> returns the maximum of
  \<open>current_price + (1 - available_supply / total_supply) * 50 - risk_factor * 10
   + (market_demand - 1) * 25\<close> and \<open>face_value * 0.7\<close> as it is, not rounded; the value
  of the specification is what rounding that result to 2 decimal places gives.
\<close>

theorem price_formula_unrounded:
  assumes "total_supply bond \<noteq> 0"
  shows "calculate_bond_price bond market_demand =
           Inr (max (current_price bond
                      + (1 - available_supply bond / of_int (total_supply bond)) * 50
                      - risk_factor bond * 10
                      + (market_demand - 1) * 25)
                    (face_value bond * 0.7))
         \<and> map_sum (\<lambda>err. err) round2 (calculate_bond_price bond market_demand)
             = Inr (spec_price bond market_demand)"
  using assms by (simp add: calculate_bond_price_def spec_price_def Let_def)

theorem price_formula_unrounded_witness:
  "total_supply kenya \<noteq> 0
   \<and> calculate_bond_price kenya 1
       = Inr (max (965 + (1 - 5500 / 8000) * 50 - 1.8 * 10 + (1 - 1) * 25) (1000 * 0.7))
   \<and> map_sum (\<lambda>err. err) round2 (calculate_bond_price kenya 1) = Inr (spec_price kenya 1)"
proof -
  have nz: "total_supply kenya \<noteq> 0" by (simp add: kenya_eq)
  from price_formula_unrounded [OF nz, of 1] nz show ?thesis
    by (simp add: kenya_eq calculate_bond_price_def spec_price_def)
qed

subsection \<open>Yield Engine\<close>

text \<open>
  Claim C5. For every bond and every current instant, \<open>calculate_dynamic_yield\<close> returns
  \<open>round(coupon_rate * (1 + risk_factor / 100) + max(0, years_to_maturity - 2) * 0.3, 2)\<close>,
  where \<open>years_to_maturity\<close> is the whole number of days from the current instant to the
  midnight that begins the maturity date, divided by 365.25. For a matured bond that
  number is negative, it is not clamped, and the maturity term is 0. The function returns
  for every bond whose \<open>maturity_date\<close> parses as a date; otherwise \<^verbatim>\<open>strptime\<close> raises
  \<^verbatim>\<open>ValueError\<close>.
\<close>

theorem dynamic_yield_formula:
  "calculate_dynamic_yield bond current =
     (case strptime_ymd (maturity_date bond) of
        Inl err \<Rightarrow> Inl err
      | Inr maturity \<Rightarrow> Inr (spec_yield bond maturity current))
   \<and> (\<forall>maturity. strptime_ymd (maturity_date bond) = Inr maturity \<and> maturity < current \<longrightarrow>
         spec_years_to_maturity maturity current < 0
         \<and> calculate_dynamic_yield bond current
             = Inr (round2 (coupon_rate bond * (1 + risk_factor bond / 100))))"
proof (intro conjI allI impI)
  show "calculate_dynamic_yield bond current =
     (case strptime_ymd (maturity_date bond) of
        Inl err \<Rightarrow> Inl err
      | Inr maturity \<Rightarrow> Inr (spec_yield bond maturity current))"
    by (simp add: calculate_dynamic_yield_def spec_yield_def spec_years_to_maturity_def
        timedelta_days_def Let_def split: sum.splits)
next
  fix maturity
  assume "strptime_ymd (maturity_date bond) = Inr maturity \<and> maturity < current"
  then have parse: "strptime_ymd (maturity_date bond) = Inr maturity"
    and past: "maturity < current" by simp_all
  from past have "(maturity - current) div usec_per_day < 0"
    by (simp add: usec_per_day_def div_neg_pos_less0)
  then show neg: "spec_years_to_maturity maturity current < 0"
    by (simp add: spec_years_to_maturity_def divide_neg_pos)
  then have "max 0 (spec_years_to_maturity maturity current - 2) = 0"
    by simp
  with parse show "calculate_dynamic_yield bond current
             = Inr (round2 (coupon_rate bond * (1 + risk_factor bond / 100)))"
    by (simp add: calculate_dynamic_yield_def spec_years_to_maturity_def
        timedelta_days_def Let_def)
qed

theorem dynamic_yield_formula_witness:
  "strptime_ymd (maturity_date negative_coupon_bond) = Inr (mk_datetime 2020 12 31 0 0 0)
   \<and> mk_datetime 2020 12 31 0 0 0 < mk_datetime 2026 11 3 12 0 0
   \<and> spec_years_to_maturity (mk_datetime 2020 12 31 0 0 0) (mk_datetime 2026 11 3 12 0 0) < 0
   \<and> calculate_dynamic_yield negative_coupon_bond (mk_datetime 2026 11 3 12 0 0) = Inr (- 1)"
proof -
  have parse: "strptime_ymd (maturity_date negative_coupon_bond) = Inr (mk_datetime 2020 12 31 0 0 0)"
    by (simp add: negative_coupon_bond_def date_defs)
  have past: "mk_datetime 2020 12 31 0 0 0 < mk_datetime 2026 11 3 12 0 0"
    by (simp add: date_defs)
  from dynamic_yield_formula [of negative_coupon_bond "mk_datetime 2026 11 3 12 0 0"] parse past
  have "spec_years_to_maturity (mk_datetime 2020 12 31 0 0 0) (mk_datetime 2026 11 3 12 0 0) < 0
        \<and> calculate_dynamic_yield negative_coupon_bond (mk_datetime 2026 11 3 12 0 0)
            = Inr (round2 (coupon_rate negative_coupon_bond
                           * (1 + risk_factor negative_coupon_bond / 100)))"
    by blast
  with parse past show ?thesis
    by (simp add: negative_coupon_bond_def round_defs)
qed

text \<open>
  Claim C8, as stated: for two bonds that differ in \<open>risk_factor\<close> only, the larger
  \<open>risk_factor\<close> gives the larger or equal yield. It fails for a bond with a negative
  \<open>coupon_rate\<close>: with coupon rate -1, risk factor 0 gives the yield -1 and risk factor
  100 gives the yield -2.
\<close>

theorem yield_risk_monotone_counterexample:
  "risk_factor negative_coupon_bond \<le> risk_factor (negative_coupon_bond\<lparr>risk_factor := 100\<rparr>)
   \<and> calculate_dynamic_yield negative_coupon_bond (mk_datetime 2026 11 3 12 0 0) = Inr (- 1)
   \<and> calculate_dynamic_yield (negative_coupon_bond\<lparr>risk_factor := 100\<rparr>)
       (mk_datetime 2026 11 3 12 0 0) = Inr (- 2)"
  by (simp add: negative_coupon_bond_def calculate_dynamic_yield_def date_defs round_defs)

text \<open>
  Claim C8, amended. For every two bonds that have a \<open>coupon_rate\<close> of at least 0 and are
  identical in all fields except \<open>risk_factor\<close>, and for every current instant, the bond
  with the larger or equal \<open>risk_factor\<close> has the larger or equal yield; the two calls
  either both return or both raise the same error.
\<close>

theorem yield_risk_monotone:
  assumes "0 \<le> coupon_rate b1"
    and "b2 = b1\<lparr>risk_factor := risk_factor b2\<rparr>"
    and "risk_factor b1 \<le> risk_factor b2"
  shows "(case (calculate_dynamic_yield b1 current, calculate_dynamic_yield b2 current) of
            (Inr y1, Inr y2) \<Rightarrow> y1 \<le> y2
          | (Inl e1, Inl e2) \<Rightarrow> e1 = e2
          | _ \<Rightarrow> False)"
proof -
  from assms(2) have same: "coupon_rate b2 = coupon_rate b1" "maturity_date b2 = maturity_date b1"
    by (metis Bond.select_convs(5) Bond.surjective Bond.update_convs(9),
        metis Bond.select_convs(6) Bond.surjective Bond.update_convs(9))
  from assms(1,3) have "coupon_rate b1 * (1 + risk_factor b1 / 100)
      \<le> coupon_rate b1 * (1 + risk_factor b2 / 100)"
    by (intro mult_left_mono) simp_all
  then show ?thesis
    by (auto simp add: calculate_dynamic_yield_def Let_def same split: sum.splits
        intro!: round2_mono)
qed

theorem yield_risk_monotone_witness:
  "0 \<le> coupon_rate kenya
   \<and> kenya\<lparr>risk_factor := 4\<rparr> = kenya\<lparr>risk_factor := risk_factor (kenya\<lparr>risk_factor := 4\<rparr>)\<rparr>
   \<and> risk_factor kenya \<le> risk_factor (kenya\<lparr>risk_factor := 4\<rparr>)
   \<and> calculate_dynamic_yield kenya (mk_datetime 2026 11 3 12 0 0) = Inr 6.92
   \<and> calculate_dynamic_yield (kenya\<lparr>risk_factor := 4\<rparr>) (mk_datetime 2026 11 3 12 0 0) = Inr 7.07"
proof -
  have h1: "0 \<le> coupon_rate kenya" by (simp add: kenya_eq)
  have h2: "kenya\<lparr>risk_factor := 4\<rparr> = kenya\<lparr>risk_factor := risk_factor (kenya\<lparr>risk_factor := 4\<rparr>)\<rparr>"
    by simp
  have h3: "risk_factor kenya \<le> risk_factor (kenya\<lparr>risk_factor := 4\<rparr>)" by (simp add: kenya_eq)
  have v1: "calculate_dynamic_yield kenya (mk_datetime 2026 11 3 12 0 0) = Inr 6.92"
    by (simp add: kenya_eq calculate_dynamic_yield_def date_defs round_defs)
  have v2: "calculate_dynamic_yield (kenya\<lparr>risk_factor := 4\<rparr>) (mk_datetime 2026 11 3 12 0 0) = Inr 7.07"
    by (simp add: kenya_eq calculate_dynamic_yield_def date_defs round_defs)
  from yield_risk_monotone [OF h1 h2 h3, of "mk_datetime 2026 11 3 12 0 0"] h1 h2 h3 v1 v2
  show ?thesis by simp
qed

subsection \<open>Store operations\<close>

lemma find_one_bond_Some:
  "find_one_bond bs i = Some b \<Longrightarrow> Bond.id b = i \<and> b \<in> set bs"
  by (auto simp add: find_one_bond_def find_Some_iff)

lemma find_one_bond_update_other:
  "i \<noteq> j \<Longrightarrow> find_one_bond (update_one_available_supply bs j v) i = find_one_bond bs i"
  by (induction bs) (auto simp add: find_one_bond_def)

lemma find_one_bond_update_same:
  "find_one_bond bs i = Some b \<Longrightarrow>
     find_one_bond (update_one_available_supply bs i v) i = Some (b\<lparr>available_supply := v\<rparr>)"
  by (induction bs) (auto simp add: find_one_bond_def)

lemma update_one_length:
  "length (update_one_available_supply bs i v) = length bs"
  by (induction bs) auto

lemma update_one_other_fields:
  "map (\<lambda>b. b\<lparr>available_supply := 0\<rparr>) (update_one_available_supply bs i v)
     = map (\<lambda>b. b\<lparr>available_supply := 0\<rparr>) bs"
  by (induction bs) auto

lemma update_one_current_price:
  "map current_price (update_one_available_supply bs i v) = map current_price bs"
  by (induction bs) auto

lemma update_one_other_bonds:
  "filter (\<lambda>b. Bond.id b \<noteq> i) (update_one_available_supply bs i v)
     = filter (\<lambda>b. Bond.id b \<noteq> i) bs"
  by (induction bs) auto

lemma find_one_portfolio_Some:
  "find_one_portfolio ps u = Some p \<Longrightarrow> Portfolio.user_address p = u"
  by (auto simp add: find_one_portfolio_def find_Some_iff)

lemma replace_one_upsert_others:
  "Portfolio.user_address doc = u \<Longrightarrow>
     filter (\<lambda>p. Portfolio.user_address p \<noteq> u) (replace_one_upsert ps u doc)
       = filter (\<lambda>p. Portfolio.user_address p \<noteq> u) ps"
  by (induction ps) auto

lemma replace_one_upsert_find:
  "Portfolio.user_address doc = u \<Longrightarrow>
     find_one_portfolio (replace_one_upsert ps u doc) u = Some doc"
  by (induction ps) (auto simp add: find_one_portfolio_def)

subsection \<open>Which errors the parts raise\<close>

lemma strptime_ymd_error: "strptime_ymd s = Inl err \<Longrightarrow> err = ValueError"
  by (auto simp add: strptime_ymd_def Let_def
      split: list.splits option.splits if_splits prod.splits)

lemma dynamic_yield_error: "calculate_dynamic_yield b t = Inl err \<Longrightarrow> err = ValueError"
  by (auto simp add: calculate_dynamic_yield_def Let_def split: sum.splits
      dest: strptime_ymd_error)

lemma Bond_validate_error: "Bond_validate pv b = Inl err \<Longrightarrow> err = ValidationError"
  by (auto simp add: Bond_validate_def int_field_def
      split: sum.splits pydantic.splits if_splits)

lemma bond_price_error: "calculate_bond_price b m = Inl err \<Longrightarrow> err = ZeroDivisionError"
  by (auto simp add: calculate_bond_price_def Let_def split: if_splits)

lemma recalculate_error:
  "recalculate e bs hs acc = Inl err \<Longrightarrow> err = ValidationError \<or> err = ValueError"
  by (induction e bs hs acc rule: recalculate.induct)
     (auto simp add: Let_def split: option.splits sum.splits
           dest: Bond_validate_error dynamic_yield_error)

lemma Bond_validate_supply:
  assumes "Bond_validate pv b = Inr b'" and "0 \<le> available_supply b"
  shows "0 \<le> available_supply b'" and "available_supply b' \<le> available_supply b"
  using assms
  by (auto simp add: Bond_validate_def int_field_def
      split: sum.splits pydantic.splits if_splits)

subsection \<open>The outcomes of \<open>execute_trade\<close>\<close>

text \<open>A successful call has passed every check and made all three writes.\<close>

lemma execute_trade_success:
  assumes "execute_trade e d trade = (Inr r, d')"
  shows "\<exists>bond_data bond price tv ty.
           find_one_bond (db.bonds d) (TradeRequest.bond_id trade) = Some bond_data
         \<and> Bond_validate (pydantic_version e) bond_data = Inr bond
         \<and> \<not> (TradeRequest.transaction_type trade = ''buy''
               \<and> available_supply bond < TradeRequest.quantity trade)
         \<and> calculate_bond_price bond 1 = Inr price
         \<and> db.bonds d' =
             update_one_available_supply (db.bonds d) (TradeRequest.bond_id trade)
               (if TradeRequest.transaction_type trade = ''buy''
                then available_supply bond - TradeRequest.quantity trade
                else available_supply bond + TradeRequest.quantity trade)
         \<and> transactions d' = transactions d @
               [\<lparr>BondTransaction.id = uuid4_transaction e,
                 user_address = TradeRequest.user_address trade,
                 bond_id = TradeRequest.bond_id trade,
                 transaction_type = TradeRequest.transaction_type trade,
                 quantity = TradeRequest.quantity trade,
                 price_per_bond = price,
                 total_amount = price * TradeRequest.quantity trade,
                 timestamp = utcnow e\<rparr>]
         \<and> recalculate e (db.bonds d')
               (update_holdings
                  (case find_one_portfolio (portfolios d) (TradeRequest.user_address trade) of
                     Some p \<Rightarrow> Portfolio.bonds p | None \<Rightarrow> [])
                  (TradeRequest.bond_id trade) (TradeRequest.transaction_type trade)
                  (TradeRequest.quantity trade)) (0, 0) = Inr (tv, ty)
         \<and> portfolios d' =
             replace_one_upsert (portfolios d) (TradeRequest.user_address trade)
               ((case find_one_portfolio (portfolios d) (TradeRequest.user_address trade) of
                   Some p \<Rightarrow> p
                 | None \<Rightarrow> \<lparr>Portfolio.id = uuid4_portfolio e,
                            user_address = TradeRequest.user_address trade,
                            bonds = [], total_value = 0, total_yield = 0,
                            created_at = utcnow e\<rparr>)
                \<lparr>Portfolio.bonds :=
                   update_holdings
                     (case find_one_portfolio (portfolios d) (TradeRequest.user_address trade) of
                        Some p \<Rightarrow> Portfolio.bonds p | None \<Rightarrow> [])
                     (TradeRequest.bond_id trade) (TradeRequest.transaction_type trade)
                     (TradeRequest.quantity trade),
                 total_value := round2 tv, total_yield := round2 ty\<rparr>)
         \<and> r = \<lparr>success = True, transaction_id = uuid4_transaction e, trade_price = price,
                 total_amount = price * TradeRequest.quantity trade,
                 new_portfolio_value = round2 tv\<rparr>"
  using assms
  by (auto simp add: execute_trade_def Let_def
      split: option.splits sum.splits if_splits prod.splits)

text \<open>Whatever the outcome, the catalog afterwards is the catalog before, or the catalog
  before with the one write of line 258.\<close>

lemma execute_trade_bonds:
  "db.bonds (snd (execute_trade e d trade)) = db.bonds d
   \<or> (\<exists>bond_data bond.
         find_one_bond (db.bonds d) (TradeRequest.bond_id trade) = Some bond_data
       \<and> Bond_validate (pydantic_version e) bond_data = Inr bond
       \<and> \<not> (TradeRequest.transaction_type trade = ''buy''
             \<and> available_supply bond < TradeRequest.quantity trade)
       \<and> db.bonds (snd (execute_trade e d trade)) =
           update_one_available_supply (db.bonds d) (TradeRequest.bond_id trade)
             (if TradeRequest.transaction_type trade = ''buy''
              then available_supply bond - TradeRequest.quantity trade
              else available_supply bond + TradeRequest.quantity trade))"
  by (auto simp add: execute_trade_def Let_def
      split: option.splits sum.splits if_splits prod.splits)

text \<open>The two \<^verbatim>\<open>HTTPException\<close>s: both leave the store as it was.\<close>

lemma execute_trade_http:
  assumes "fst (execute_trade e d trade) = Inl (HTTPException code detail)"
  shows "snd (execute_trade e d trade) = d
       \<and> (code = 404 \<and> find_one_bond (db.bonds d) (TradeRequest.bond_id trade) = None
          \<or> code = 400 \<and> TradeRequest.transaction_type trade = ''buy''
            \<and> (\<exists>bond_data bond.
                 find_one_bond (db.bonds d) (TradeRequest.bond_id trade) = Some bond_data
               \<and> Bond_validate (pydantic_version e) bond_data = Inr bond
               \<and> available_supply bond < TradeRequest.quantity trade))"
  using assms
  by (auto simp add: execute_trade_def Let_def
      split: option.splits sum.splits if_splits prod.splits
      dest: Bond_validate_error bond_price_error recalculate_error)

subsection \<open>Settlements on the seeded store\<close>

lemmas trade_eval =
  execute_trade_def find_one_bond_def find_one_portfolio_def Bond_validate_def int_field_def
  calculate_bond_price_def calculate_dynamic_yield_def update_holdings_def
  env_2026_def db_seed_def db_bought_def tx_bought_def trade_of_def seeded_bonds_eq
  date_defs round_defs Let_def

lemma buy_5_ghana:
  "execute_trade (env_2026 pv) db_seed (trade_of ''gh'' 5 ''buy'')
     = (Inr \<lparr>success = True, transaction_id = ''tx-new'', trade_price = 939.5,
             total_amount = 4697.5, new_portfolio_value = 4750\<rparr>, db_bought)"
  by (cases pv) (simp_all add: trade_eval)

lemma sell_3000_ghana:
  "execute_trade (env_2026 pv) db_seed (trade_of ''gh'' 3000 ''sell'')
     = (Inr \<lparr>success = True, transaction_id = ''tx-new'', trade_price = 939.5,
             total_amount = 2818500, new_portfolio_value = 0\<rparr>,
        \<lparr>db.bonds = update_one_available_supply seeded_bonds ''gh'' 10500,
         transactions = [tx_bought\<lparr>BondTransaction.transaction_type := ''sell'',
                          BondTransaction.quantity := 3000,
                          BondTransaction.total_amount := 2818500\<rparr>],
         portfolios = [\<lparr>Portfolio.id = ''pf-new'', user_address = ''0xabc'', bonds = [],
                        total_value = 0, total_yield = 0,
                        created_at = mk_datetime 2026 11 3 11 0 0\<rparr>]\<rparr>)"
  by (cases pv) (simp_all add: trade_eval)

lemma buy_minus_3000_ghana:
  "execute_trade (env_2026 pv) db_seed (trade_of ''gh'' (- 3000) ''buy'')
     = (Inr \<lparr>success = True, transaction_id = ''tx-new'', trade_price = 939.5,
             total_amount = - 2818500, new_portfolio_value = - 2850000\<rparr>,
        \<lparr>db.bonds = update_one_available_supply seeded_bonds ''gh'' 10500,
         transactions = [tx_bought\<lparr>BondTransaction.quantity := - 3000,
                          BondTransaction.total_amount := - 2818500\<rparr>],
         portfolios = [\<lparr>Portfolio.id = ''pf-new'', user_address = ''0xabc'',
                        bonds = [(''gh'', - 3000)],
                        total_value = - 2850000, total_yield = 0,
                        created_at = mk_datetime 2026 11 3 11 0 0\<rparr>]\<rparr>)"
  by (cases pv) (simp_all add: trade_eval)

lemma seeded_ghana:
  "find_one_bond seeded_bonds ''gh'' = Some (seeded_bonds ! 0)"
  "total_supply (seeded_bonds ! 0) = 10000"
  "available_supply (seeded_bonds ! 0) = 7500"
  by (simp_all add: find_one_bond_def seeded_bonds_eq)

lemma sell_10_ghana_held_5:
  "execute_trade (env_2026 pv) db_bought (trade_of ''gh'' 10 ''sell'')
     = (Inr \<lparr>success = True, transaction_id = ''tx-new'', trade_price = 939.525,
             total_amount = 9395.25, new_portfolio_value = 0\<rparr>,
        \<lparr>db.bonds = update_one_available_supply seeded_bonds ''gh'' 7505,
         transactions = [tx_bought,
                         tx_bought\<lparr>BondTransaction.transaction_type := ''sell'',
                           BondTransaction.quantity := 10, price_per_bond := 939.525,
                           BondTransaction.total_amount := 9395.25\<rparr>],
         portfolios = [\<lparr>Portfolio.id = ''pf-new'', user_address = ''0xabc'', bonds = [],
                        total_value = 0, total_yield = 0,
                        created_at = mk_datetime 2026 11 3 11 0 0\<rparr>]\<rparr>)"
  by (cases pv) (simp_all add: trade_eval)

lemma hold_5_ghana:
  "execute_trade (env_2026 pv) db_seed (trade_of ''gh'' 5 ''hold'')
     = (Inr \<lparr>success = True, transaction_id = ''tx-new'', trade_price = 939.5,
             total_amount = 4697.5, new_portfolio_value = 0\<rparr>,
        \<lparr>db.bonds = update_one_available_supply seeded_bonds ''gh'' 7505,
         transactions = [tx_bought\<lparr>BondTransaction.transaction_type := ''hold''\<rparr>],
         portfolios = [\<lparr>Portfolio.id = ''pf-new'', user_address = ''0xabc'', bonds = [],
                        total_value = 0, total_yield = 0,
                        created_at = mk_datetime 2026 11 3 11 0 0\<rparr>]\<rparr>)"
  by (cases pv) (simp_all add: trade_eval)

lemma buy_8000_ghana:
  "execute_trade (env_2026 pv) db_seed (trade_of ''gh'' 8000 ''buy'')
     = (Inl (HTTPException 400 ''Insufficient bond supply''), db_seed)"
  by (cases pv) (simp_all add: trade_eval)

lemma db_bought_ok: "list_all (bond_ok (env_2026 pv)) (db.bonds db_bought)"
  by (cases pv)
     (simp_all add: bond_ok_def db_bought_def seeded_bonds_eq env_2026_def Bond_validate_def
        int_field_def calculate_dynamic_yield_def date_defs Let_def)

subsection \<open>The supply bound\<close>

text \<open>
  Claim C1, as stated: every \<open>execute_trade\<close> call that starts with the traded bond
  within \<open>0 \<le> available_supply \<le> total_supply\<close> leaves it within that bound. It fails
  on the seeded Ghana bond (7500 of 10000 available), under either pydantic version: a
  sell of 3000 units by a user who holds none leaves 10500 units available, and so does
  a buy of -3000 units.
\<close>

theorem supply_bound_counterexample:
  "map_option within_supply (find_one_bond (db.bonds db_seed) ''gh'') = Some True
   \<and> map_option within_supply
       (find_one_bond
          (db.bonds (snd (execute_trade (env_2026 V1) db_seed (trade_of ''gh'' 3000 ''sell''))))
          ''gh'') = Some False
   \<and> map_option within_supply
       (find_one_bond
          (db.bonds (snd (execute_trade (env_2026 V2) db_seed (trade_of ''gh'' 3000 ''sell''))))
          ''gh'') = Some False
   \<and> map_option available_supply
       (find_one_bond
          (db.bonds (snd (execute_trade (env_2026 V2) db_seed (trade_of ''gh'' 3000 ''sell''))))
          ''gh'') = Some 10500
   \<and> map_option within_supply
       (find_one_bond
          (db.bonds (snd (execute_trade (env_2026 V1) db_seed (trade_of ''gh'' (- 3000) ''buy''))))
          ''gh'') = Some False
   \<and> map_option within_supply
       (find_one_bond
          (db.bonds (snd (execute_trade (env_2026 V2) db_seed (trade_of ''gh'' (- 3000) ''buy''))))
          ''gh'') = Some False"
  by (simp add: sell_3000_ghana buy_minus_3000_ghana)
     (simp add: db_seed_def seeded_ghana find_one_bond_update_same within_supply_def)

text \<open>
  Claim C1, amended. For every \<open>execute_trade\<close> call with a quantity of at least 0 that
  starts from a state in which the traded bond satisfies
  \<open>0 \<le> available_supply \<le> total_supply\<close>: in the state after the call, whatever the
  outcome, the bond has the same \<open>total_supply\<close> and \<open>0 \<le> available_supply\<close>, and it has
  \<open>available_supply \<le> total_supply\<close> if the trade is a buy or if its quantity is at most
  \<open>total_supply - available_supply\<close>.
\<close>

theorem supply_bound_preserved:
  assumes found: "find_one_bond (db.bonds d) (TradeRequest.bond_id trade) = Some b"
    and bound: "within_supply b"
    and nonneg: "0 \<le> TradeRequest.quantity trade"
  shows "\<exists>b'. find_one_bond (db.bonds (snd (execute_trade e d trade))) (TradeRequest.bond_id trade)
                = Some b'
            \<and> total_supply b' = total_supply b
            \<and> 0 \<le> available_supply b'
            \<and> (TradeRequest.transaction_type trade = ''buy''
                 \<or> TradeRequest.quantity trade \<le> of_int (total_supply b) - available_supply b
               \<longrightarrow> available_supply b' \<le> of_int (total_supply b'))"
proof -
  from bound have pre: "0 \<le> available_supply b" "available_supply b \<le> of_int (total_supply b)"
    by (simp_all add: within_supply_def)
  from execute_trade_bonds [of e d trade]
  consider (same) "db.bonds (snd (execute_trade e d trade)) = db.bonds d"
    | (written) bond where "Bond_validate (pydantic_version e) b = Inr bond"
        and "\<not> (TradeRequest.transaction_type trade = ''buy''
               \<and> available_supply bond < TradeRequest.quantity trade)"
        and "db.bonds (snd (execute_trade e d trade)) =
             update_one_available_supply (db.bonds d) (TradeRequest.bond_id trade)
               (if TradeRequest.transaction_type trade = ''buy''
                then available_supply bond - TradeRequest.quantity trade
                else available_supply bond + TradeRequest.quantity trade)"
    using found by auto
  then show ?thesis
  proof cases
    case same
    with found pre show ?thesis by simp
  next
    case written
    from Bond_validate_supply [OF written(1) pre(1)]
    have v: "0 \<le> available_supply bond" "available_supply bond \<le> available_supply b"
      by simp_all
    let ?new = "if TradeRequest.transaction_type trade = ''buy''
                then available_supply bond - TradeRequest.quantity trade
                else available_supply bond + TradeRequest.quantity trade"
    from found written(3)
    have "find_one_bond (db.bonds (snd (execute_trade e d trade))) (TradeRequest.bond_id trade)
            = Some (b\<lparr>available_supply := ?new\<rparr>)"
      by (simp add: find_one_bond_update_same)
    moreover from written(2) v nonneg have "0 \<le> ?new" by auto
    moreover from v pre nonneg
    have "TradeRequest.transaction_type trade = ''buy''
            \<or> TradeRequest.quantity trade \<le> of_int (total_supply b) - available_supply b
          \<longrightarrow> ?new \<le> of_int (total_supply b)"
      by auto
    ultimately show ?thesis by simp
  qed
qed

theorem supply_bound_preserved_witness:
  "find_one_bond (db.bonds db_seed) (TradeRequest.bond_id (trade_of ''gh'' 5 ''buy''))
     = Some (seeded_bonds ! 0)
   \<and> within_supply (seeded_bonds ! 0)
   \<and> 0 \<le> TradeRequest.quantity (trade_of ''gh'' 5 ''buy'')
   \<and> (\<exists>b'. find_one_bond (db.bonds db_bought) ''gh'' = Some b'
          \<and> total_supply b' = 10000
          \<and> 0 \<le> available_supply b'
          \<and> available_supply b' \<le> of_int (total_supply b'))"
proof -
  have h1: "find_one_bond (db.bonds db_seed) (TradeRequest.bond_id (trade_of ''gh'' 5 ''buy''))
              = Some (seeded_bonds ! 0)"
    by (simp add: db_seed_def trade_of_def seeded_ghana)
  have h2: "within_supply (seeded_bonds ! 0)"
    by (simp add: within_supply_def seeded_ghana)
  have h3: "0 \<le> TradeRequest.quantity (trade_of ''gh'' 5 ''buy'')"
    by (simp add: trade_of_def)
  from supply_bound_preserved [OF h1 h2 h3, of "env_2026 V2"] h1 h2 h3 show ?thesis
    by (simp add: buy_5_ghana seeded_ghana) (simp add: trade_of_def)
qed

subsection \<open>What a settlement leaves alone\<close>

text \<open>
  Claim C10. For every successful trade, \<open>execute_trade\<close> changes no field of the Bond
  Catalog other than \<open>available_supply\<close>: the catalog keeps its length and order, every
  bond keeps all its other fields, in particular its \<open>current_price\<close> (the execution
  price is not written back), every bond with another identifier than the traded one is
  unchanged, and every portfolio of a user other than the requester is unchanged.
\<close>

theorem trade_frame:
  assumes "execute_trade e d trade = (Inr r, d')"
  shows "length (db.bonds d') = length (db.bonds d)
       \<and> map (\<lambda>b. b\<lparr>available_supply := 0\<rparr>) (db.bonds d')
           = map (\<lambda>b. b\<lparr>available_supply := 0\<rparr>) (db.bonds d)
       \<and> map current_price (db.bonds d') = map current_price (db.bonds d)
       \<and> filter (\<lambda>b. Bond.id b \<noteq> TradeRequest.bond_id trade) (db.bonds d')
           = filter (\<lambda>b. Bond.id b \<noteq> TradeRequest.bond_id trade) (db.bonds d)
       \<and> filter (\<lambda>p. Portfolio.user_address p \<noteq> TradeRequest.user_address trade)
           (portfolios d')
           = filter (\<lambda>p. Portfolio.user_address p \<noteq> TradeRequest.user_address trade)
               (portfolios d)"
proof -
  from execute_trade_success [OF assms] obtain v doc where
    bs: "db.bonds d' = update_one_available_supply (db.bonds d) (TradeRequest.bond_id trade) v"
    and ps: "portfolios d' = replace_one_upsert (portfolios d) (TradeRequest.user_address trade) doc"
    and doc: "Portfolio.user_address doc = TradeRequest.user_address trade"
    by (auto split: option.splits dest: find_one_portfolio_Some)
  from bs ps doc show ?thesis
    by (simp add: update_one_length update_one_other_fields update_one_current_price
        update_one_other_bonds replace_one_upsert_others)
qed

theorem trade_frame_witness:
  "execute_trade (env_2026 V2) db_seed (trade_of ''gh'' 5 ''buy'')
     = (Inr \<lparr>success = True, transaction_id = ''tx-new'', trade_price = 939.5,
             total_amount = 4697.5, new_portfolio_value = 4750\<rparr>, db_bought)
   \<and> length (db.bonds db_bought) = length (db.bonds db_seed)
   \<and> map current_price (db.bonds db_bought) = [950, 920, 965, 890]
   \<and> map current_price (db.bonds db_seed) = [950, 920, 965, 890]
   \<and> trade_price \<lparr>success = True, transaction_id = ''tx-new'', trade_price = 939.5,
                   total_amount = 4697.5, new_portfolio_value = 4750\<rparr> = 939.5
   \<and> filter (\<lambda>b. Bond.id b \<noteq> ''gh'') (db.bonds db_bought)
       = filter (\<lambda>b. Bond.id b \<noteq> ''gh'') (db.bonds db_seed)"
proof -
  have prices: "map current_price (db.bonds db_seed) = [950, 920, 965, 890]"
    by (simp add: db_seed_def seeded_bonds_eq)
  from trade_frame [OF buy_5_ghana [of V2]] prices buy_5_ghana [of V2] show ?thesis
    by (simp add: trade_of_def)
qed

subsection \<open>Selling more than is held\<close>

lemma update_holdings_sell_all:
  assumes "ttype \<noteq> ''buy''"
    and "(case map_of hs bid of None \<Rightarrow> 0 | Some q \<Rightarrow> q) \<le> qty"
  shows "update_holdings hs bid ttype qty = AList.delete bid hs"
  using assms
  by (auto simp add: update_holdings_def Let_def update_conv' AList.delete_update_same
      split: option.splits)

lemma update_holdings_not_buy:
  "ttype \<noteq> ''buy'' \<Longrightarrow> update_holdings hs bid ttype qty = update_holdings hs bid ''sell'' qty"
  by (simp add: update_holdings_def)

text \<open>The loop returns when every holding it finds in the catalog validates and has a
  maturity date that parses.\<close>

lemma recalculate_ok:
  assumes "\<forall>(k, q) \<in> set hs. \<forall>b. find_one_bond bs k = Some b \<longrightarrow> bond_ok e b"
  shows "\<exists>r. recalculate e bs hs acc = Inr r"
  using assms
proof (induction e bs hs acc rule: recalculate.induct)
  case (1 e bs acc)
  then show ?case by simp
next
  case (2 e bs bid qty rest tv ty)
  show ?case
  proof (cases "find_one_bond bs bid")
    case None
    with 2 show ?thesis by simp
  next
    case (Some b)
    with 2(3) have "bond_ok e b" by simp
    then obtain bond y where v: "Bond_validate (pydantic_version e) b = Inr bond"
      and y: "calculate_dynamic_yield bond (now e) = Inr y"
      by (auto simp add: bond_ok_def split: sum.splits)
    from 2(3) have rest: "\<forall>(k, q) \<in> set rest. \<forall>b. find_one_bond bs k = Some b \<longrightarrow> bond_ok e b"
      by simp
    from 2(2) [OF Some v refl y rest] Some v y show ?thesis
      by (simp add: Let_def)
  qed
qed

text \<open>
  Claim C2, as stated: a sell whose quantity exceeds the user's holding fails with
  InsufficientHoldings and mutates nothing. It fails in the store where the user holds 5
  units of the Ghana bond, under either pydantic version: the sell of 10 units succeeds,
  a second transaction is logged, the available supply rises from 7495 to 7505 and the
  holding is gone.
\<close>

theorem oversell_counterexample:
  "holding db_bought ''0xabc'' ''gh'' = 5
   \<and> fst (execute_trade (env_2026 V1) db_bought (trade_of ''gh'' 10 ''sell''))
       = Inr \<lparr>success = True, transaction_id = ''tx-new'', trade_price = 939.525,
              total_amount = 9395.25, new_portfolio_value = 0\<rparr>
   \<and> fst (execute_trade (env_2026 V2) db_bought (trade_of ''gh'' 10 ''sell''))
       = Inr \<lparr>success = True, transaction_id = ''tx-new'', trade_price = 939.525,
              total_amount = 9395.25, new_portfolio_value = 0\<rparr>
   \<and> snd (execute_trade (env_2026 V1) db_bought (trade_of ''gh'' 10 ''sell'')) \<noteq> db_bought
   \<and> snd (execute_trade (env_2026 V2) db_bought (trade_of ''gh'' 10 ''sell'')) \<noteq> db_bought
   \<and> length (transactions
        (snd (execute_trade (env_2026 V2) db_bought (trade_of ''gh'' 10 ''sell'')))) = 2
   \<and> map_option available_supply
       (find_one_bond (db.bonds db_bought) ''gh'') = Some 7495
   \<and> map_option available_supply
       (find_one_bond
          (db.bonds (snd (execute_trade (env_2026 V2) db_bought (trade_of ''gh'' 10 ''sell''))))
          ''gh'') = Some 7505
   \<and> holding (snd (execute_trade (env_2026 V2) db_bought (trade_of ''gh'' 10 ''sell'')))
       ''0xabc'' ''gh'' = 0"
  by (simp add: sell_10_ghana_held_5)
     (simp add: db_bought_def holding_def find_one_portfolio_def seeded_ghana
        find_one_bond_update_same)

text \<open>
  Claim C2, amended. For every sell trade whose quantity exceeds the user's current
  holding of that bond, \<open>execute_trade\<close> raises no InsufficientHoldings error: when the
  bond exists, validates and has a \<open>total_supply\<close> other than 0, and every bond of the
  catalog validates and has a maturity date that parses, the call succeeds, appends the
  transaction with the requested quantity, adds the quantity to the bond's
  \<open>available_supply\<close> and removes the bond from the user's holdings.
\<close>

theorem oversell_settles:
  assumes sell: "TradeRequest.transaction_type trade = ''sell''"
    and found: "find_one_bond (db.bonds d) (TradeRequest.bond_id trade) = Some bond_data"
    and valid: "Bond_validate (pydantic_version e) bond_data = Inr bond"
    and nz: "total_supply bond \<noteq> 0"
    and ok: "list_all (bond_ok e) (db.bonds d)"
    and over: "holding d (TradeRequest.user_address trade) (TradeRequest.bond_id trade)
                 < TradeRequest.quantity trade"
  shows "\<exists>r d'. execute_trade e d trade = (Inr r, d')
           \<and> success r
           \<and> length (transactions d') = Suc (length (transactions d))
           \<and> TradeRequest.quantity trade = BondTransaction.quantity (last (transactions d'))
           \<and> find_one_bond (db.bonds d') (TradeRequest.bond_id trade)
               = Some (bond_data\<lparr>available_supply :=
                          available_supply bond + TradeRequest.quantity trade\<rparr>)
           \<and> (\<exists>p. find_one_portfolio (portfolios d') (TradeRequest.user_address trade) = Some p
                  \<and> map_of (Portfolio.bonds p) (TradeRequest.bond_id trade) = None)
           \<and> holding d' (TradeRequest.user_address trade) (TradeRequest.bond_id trade) = 0"
proof -
  let ?u = "TradeRequest.user_address trade" and ?bid = "TradeRequest.bond_id trade"
  let ?q = "TradeRequest.quantity trade"
  let ?hs = "case find_one_portfolio (portfolios d) ?u of
               Some p \<Rightarrow> Portfolio.bonds p | None \<Rightarrow> []"
  let ?bs = "update_one_available_supply (db.bonds d) ?bid (available_supply bond + ?q)"
  from nz obtain price where price: "calculate_bond_price bond 1 = Inr price"
    by (simp add: calculate_bond_price_def Let_def)
  from over have "(case map_of ?hs ?bid of None \<Rightarrow> 0 | Some q \<Rightarrow> q) \<le> ?q"
    by (simp add: holding_def split: option.splits)
  with sell have hs: "update_holdings ?hs ?bid (TradeRequest.transaction_type trade) ?q
      = AList.delete ?bid ?hs"
    by (intro update_holdings_sell_all) simp_all
  have "\<forall>(k, q) \<in> set (AList.delete ?bid ?hs). \<forall>b. find_one_bond ?bs k = Some b \<longrightarrow> bond_ok e b"
  proof (clarify)
    fix k q b
    assume "(k, q) \<in> set (AList.delete ?bid ?hs)" and b: "find_one_bond ?bs k = Some b"
    then have "k \<noteq> ?bid" by (auto simp add: AList.delete_eq)
    with b have "find_one_bond (db.bonds d) k = Some b"
      by (simp add: find_one_bond_update_other)
    with ok show "bond_ok e b"
      by (auto simp add: list_all_iff dest: find_one_bond_Some)
  qed
  from recalculate_ok [OF this] obtain tv ty where
    rec: "recalculate e ?bs (AList.delete ?bid ?hs) (0, 0) = Inr (tv, ty)"
    by fastforce
  let ?p = "(case find_one_portfolio (portfolios d) ?u of
               Some p \<Rightarrow> p
             | None \<Rightarrow> \<lparr>Portfolio.id = uuid4_portfolio e, user_address = ?u,
                        bonds = [], total_value = 0, total_yield = 0, created_at = utcnow e\<rparr>)
            \<lparr>Portfolio.bonds := AList.delete ?bid ?hs,
             total_value := round2 tv, total_yield := round2 ty\<rparr>"
  have pu: "Portfolio.user_address ?p = ?u"
    by (auto split: option.splits dest: find_one_portfolio_Some)
  have phs: "?hs = Portfolio.bonds (case find_one_portfolio (portfolios d) ?u of
               Some p \<Rightarrow> p
             | None \<Rightarrow> \<lparr>Portfolio.id = uuid4_portfolio e, user_address = ?u,
                        bonds = [], total_value = 0, total_yield = 0, created_at = utcnow e\<rparr>)"
    by (simp split: option.splits)
  from sell found valid price hs rec phs
  have run: "execute_trade e d trade =
     (Inr \<lparr>success = True, transaction_id = uuid4_transaction e, trade_price = price,
           total_amount = price * ?q, new_portfolio_value = round2 tv\<rparr>,
      \<lparr>db.bonds = ?bs,
       transactions = transactions d @
         [\<lparr>BondTransaction.id = uuid4_transaction e, user_address = ?u, bond_id = ?bid,
           transaction_type = TradeRequest.transaction_type trade, quantity = ?q,
           price_per_bond = price, total_amount = price * ?q, timestamp = utcnow e\<rparr>],
       portfolios = replace_one_upsert (portfolios d) ?u ?p\<rparr>)"
    by (simp add: execute_trade_def Let_def)
  have "find_one_portfolio (replace_one_upsert (portfolios d) ?u ?p) ?u = Some ?p"
    using pu by (rule replace_one_upsert_find)
  moreover have "map_of (Portfolio.bonds ?p) ?bid = None"
    by (simp add: AList.delete_conv')
  ultimately show ?thesis
    using found by (simp add: run find_one_bond_update_same holding_def)
qed

theorem oversell_settles_witness:
  "TradeRequest.transaction_type (trade_of ''gh'' 10 ''sell'') = ''sell''
   \<and> find_one_bond (db.bonds db_bought) (TradeRequest.bond_id (trade_of ''gh'' 10 ''sell''))
       = Some ((seeded_bonds ! 0)\<lparr>available_supply := 7495\<rparr>)
   \<and> Bond_validate (pydantic_version (env_2026 V2)) ((seeded_bonds ! 0)\<lparr>available_supply := 7495\<rparr>)
       = Inr ((seeded_bonds ! 0)\<lparr>available_supply := 7495\<rparr>)
   \<and> total_supply ((seeded_bonds ! 0)\<lparr>available_supply := 7495\<rparr>) \<noteq> 0
   \<and> list_all (bond_ok (env_2026 V2)) (db.bonds db_bought)
   \<and> holding db_bought (TradeRequest.user_address (trade_of ''gh'' 10 ''sell''))
        (TradeRequest.bond_id (trade_of ''gh'' 10 ''sell''))
       < TradeRequest.quantity (trade_of ''gh'' 10 ''sell'')
   \<and> (\<exists>r d'. execute_trade (env_2026 V2) db_bought (trade_of ''gh'' 10 ''sell'') = (Inr r, d')
          \<and> success r
          \<and> length (transactions d') = Suc (length (transactions db_bought))
          \<and> find_one_bond (db.bonds d') ''gh''
              = Some ((seeded_bonds ! 0)\<lparr>available_supply := 7505\<rparr>)
          \<and> holding d' ''0xabc'' ''gh'' = 0)"
proof -
  let ?t = "trade_of ''gh'' 10 ''sell''"
  let ?b = "(seeded_bonds ! 0)\<lparr>available_supply := 7495\<rparr>"
  have h1: "TradeRequest.transaction_type ?t = ''sell''"
    by (simp add: trade_of_def)
  have h2: "find_one_bond (db.bonds db_bought) (TradeRequest.bond_id ?t) = Some ?b"
    by (simp add: trade_of_def db_bought_def seeded_ghana find_one_bond_update_same)
  have h3: "Bond_validate (pydantic_version (env_2026 V2)) ?b = Inr ?b"
    by (simp add: env_2026_def Bond_validate_def int_field_def)
  have h4: "total_supply ?b \<noteq> 0"
    by (simp add: seeded_ghana)
  have h5: "list_all (bond_ok (env_2026 V2)) (db.bonds db_bought)"
    by (rule db_bought_ok)
  have h6: "holding db_bought (TradeRequest.user_address ?t) (TradeRequest.bond_id ?t)
              < TradeRequest.quantity ?t"
    by (simp add: trade_of_def holding_def db_bought_def find_one_portfolio_def)
  from oversell_settles [OF h1 h2 h3 h4 h5 h6] h1 h2 h3 h4 h5 h6 show ?thesis
    by (simp add: trade_of_def) blast
qed

subsection \<open>What is rejected\<close>

text \<open>
  Claim C7, as stated: a trade with a non-positive quantity, or with a transaction type
  other than "buy" and "sell", fails with HTTP 400 before any mutation. It fails on the
  seeded store, under either pydantic version: a buy of -3000 units of the Ghana bond
  succeeds and changes the store, and so does a trade of 5 units with the type "hold".
\<close>

theorem unvalidated_trade_counterexample:
  "fst (execute_trade (env_2026 V1) db_seed (trade_of ''gh'' (- 3000) ''buy''))
     = Inr \<lparr>success = True, transaction_id = ''tx-new'', trade_price = 939.5,
            total_amount = - 2818500, new_portfolio_value = - 2850000\<rparr>
   \<and> fst (execute_trade (env_2026 V2) db_seed (trade_of ''gh'' (- 3000) ''buy''))
     = Inr \<lparr>success = True, transaction_id = ''tx-new'', trade_price = 939.5,
            total_amount = - 2818500, new_portfolio_value = - 2850000\<rparr>
   \<and> snd (execute_trade (env_2026 V1) db_seed (trade_of ''gh'' (- 3000) ''buy'')) \<noteq> db_seed
   \<and> snd (execute_trade (env_2026 V2) db_seed (trade_of ''gh'' (- 3000) ''buy'')) \<noteq> db_seed
   \<and> fst (execute_trade (env_2026 V1) db_seed (trade_of ''gh'' 5 ''hold''))
     = Inr \<lparr>success = True, transaction_id = ''tx-new'', trade_price = 939.5,
            total_amount = 4697.5, new_portfolio_value = 0\<rparr>
   \<and> fst (execute_trade (env_2026 V2) db_seed (trade_of ''gh'' 5 ''hold''))
     = Inr \<lparr>success = True, transaction_id = ''tx-new'', trade_price = 939.5,
            total_amount = 4697.5, new_portfolio_value = 0\<rparr>
   \<and> snd (execute_trade (env_2026 V1) db_seed (trade_of ''gh'' 5 ''hold'')) \<noteq> db_seed
   \<and> snd (execute_trade (env_2026 V2) db_seed (trade_of ''gh'' 5 ''hold'')) \<noteq> db_seed"
  by (simp add: buy_minus_3000_ghana hold_5_ghana) (simp add: db_seed_def)

text \<open>
  Claim C7, amended. \<open>execute_trade\<close> fails with HTTP 400 only for a buy whose quantity
  exceeds the \<open>available_supply\<close> of the bond, and then the store is as it was. A
  transaction type other than "buy" is not rejected: the call has the outcome, and
  leaves the catalog and the portfolios, of the same request with the type "sell". A
  non-positive quantity is not rejected: on a bond whose \<open>available_supply\<close> is at least
  0 the call never fails with HTTP 400.
\<close>

theorem rejections:
  "(fst (execute_trade e d trade) = Inl (HTTPException 400 detail) \<longrightarrow>
      TradeRequest.transaction_type trade = ''buy''
      \<and> snd (execute_trade e d trade) = d
      \<and> (\<exists>bond_data bond.
            find_one_bond (db.bonds d) (TradeRequest.bond_id trade) = Some bond_data
          \<and> Bond_validate (pydantic_version e) bond_data = Inr bond
          \<and> available_supply bond < TradeRequest.quantity trade))
   \<and> (ttype \<noteq> ''buy'' \<longrightarrow>
        fst (execute_trade e d (trade\<lparr>TradeRequest.transaction_type := ttype\<rparr>))
          = fst (execute_trade e d (trade\<lparr>TradeRequest.transaction_type := ''sell''\<rparr>))
        \<and> db.bonds (snd (execute_trade e d (trade\<lparr>TradeRequest.transaction_type := ttype\<rparr>)))
          = db.bonds (snd (execute_trade e d (trade\<lparr>TradeRequest.transaction_type := ''sell''\<rparr>)))
        \<and> portfolios (snd (execute_trade e d (trade\<lparr>TradeRequest.transaction_type := ttype\<rparr>)))
          = portfolios (snd (execute_trade e d (trade\<lparr>TradeRequest.transaction_type := ''sell''\<rparr>))))
   \<and> (TradeRequest.quantity trade \<le> 0
        \<and> find_one_bond (db.bonds d) (TradeRequest.bond_id trade) = Some stored
        \<and> 0 \<le> available_supply stored \<longrightarrow>
        fst (execute_trade e d trade) \<noteq> Inl (HTTPException 400 detail))"
proof (intro conjI impI)
  assume r: "fst (execute_trade e d trade) = Inl (HTTPException 400 detail)"
  from execute_trade_http [OF r]
  show "TradeRequest.transaction_type trade = ''buy''"
    and "snd (execute_trade e d trade) = d"
    and "\<exists>bond_data bond.
            find_one_bond (db.bonds d) (TradeRequest.bond_id trade) = Some bond_data
          \<and> Bond_validate (pydantic_version e) bond_data = Inr bond
          \<and> available_supply bond < TradeRequest.quantity trade"
    by simp_all
next
  assume t: "ttype \<noteq> ''buy''"
  let ?a = "execute_trade e d (trade\<lparr>TradeRequest.transaction_type := ttype\<rparr>)"
  let ?b = "execute_trade e d (trade\<lparr>TradeRequest.transaction_type := ''sell''\<rparr>)"
  from t show "fst ?a = fst ?b"
    by (simp add: execute_trade_def Let_def update_holdings_not_buy [OF t]
        split: option.splits sum.splits prod.splits)
  from t show "db.bonds (snd ?a) = db.bonds (snd ?b)"
    by (simp add: execute_trade_def Let_def update_holdings_not_buy [OF t]
        split: option.splits sum.splits prod.splits)
  from t show "portfolios (snd ?a) = portfolios (snd ?b)"
    by (simp add: execute_trade_def Let_def update_holdings_not_buy [OF t]
        split: option.splits sum.splits prod.splits)
next
  assume h: "TradeRequest.quantity trade \<le> 0
        \<and> find_one_bond (db.bonds d) (TradeRequest.bond_id trade) = Some stored
        \<and> 0 \<le> available_supply stored"
  show "fst (execute_trade e d trade) \<noteq> Inl (HTTPException 400 detail)"
  proof
    assume r: "fst (execute_trade e d trade) = Inl (HTTPException 400 detail)"
    from execute_trade_http [OF r] h obtain bond where
      "Bond_validate (pydantic_version e) stored = Inr bond"
      and "available_supply bond < TradeRequest.quantity trade"
      by auto
    with Bond_validate_supply(1) [of "pydantic_version e" stored bond] h show False
      by simp
  qed
qed

theorem rejections_witness:
  "fst (execute_trade (env_2026 V2) db_seed (trade_of ''gh'' 8000 ''buy''))
     = Inl (HTTPException 400 ''Insufficient bond supply'')
   \<and> TradeRequest.transaction_type (trade_of ''gh'' 8000 ''buy'') = ''buy''
   \<and> snd (execute_trade (env_2026 V2) db_seed (trade_of ''gh'' 8000 ''buy'')) = db_seed
   \<and> ''hold'' \<noteq> ''buy''
   \<and> fst (execute_trade (env_2026 V2) db_seed
            ((trade_of ''gh'' 8000 ''buy'')\<lparr>TradeRequest.transaction_type := ''hold''\<rparr>))
       = fst (execute_trade (env_2026 V2) db_seed
            ((trade_of ''gh'' 8000 ''buy'')\<lparr>TradeRequest.transaction_type := ''sell''\<rparr>))
   \<and> TradeRequest.quantity (trade_of ''gh'' (- 3000) ''buy'') \<le> 0
   \<and> find_one_bond (db.bonds db_seed) (TradeRequest.bond_id (trade_of ''gh'' (- 3000) ''buy''))
       = Some (seeded_bonds ! 0)
   \<and> 0 \<le> available_supply (seeded_bonds ! 0)
   \<and> fst (execute_trade (env_2026 V2) db_seed (trade_of ''gh'' (- 3000) ''buy''))
       \<noteq> Inl (HTTPException 400 ''Insufficient bond supply'')"
proof -
  have a: "fst (execute_trade (env_2026 V2) db_seed (trade_of ''gh'' 8000 ''buy''))
             = Inl (HTTPException 400 ''Insufficient bond supply'')"
    by (simp add: buy_8000_ghana)
  have b: "''hold'' \<noteq> ''buy''" by simp
  have c: "TradeRequest.quantity (trade_of ''gh'' (- 3000) ''buy'') \<le> 0
           \<and> find_one_bond (db.bonds db_seed)
                (TradeRequest.bond_id (trade_of ''gh'' (- 3000) ''buy'')) = Some (seeded_bonds ! 0)
           \<and> 0 \<le> available_supply (seeded_bonds ! 0)"
    by (simp add: trade_of_def db_seed_def seeded_ghana)
  from rejections [where e = "env_2026 V2" and d = db_seed
      and trade = "trade_of ''gh'' 8000 ''buy''"
      and detail = "''Insufficient bond supply''" and ttype = "''hold''"
      and stored = "seeded_bonds ! 0"] a b
  have first: "TradeRequest.transaction_type (trade_of ''gh'' 8000 ''buy'') = ''buy''
      \<and> snd (execute_trade (env_2026 V2) db_seed (trade_of ''gh'' 8000 ''buy'')) = db_seed
      \<and> fst (execute_trade (env_2026 V2) db_seed
            ((trade_of ''gh'' 8000 ''buy'')\<lparr>TradeRequest.transaction_type := ''hold''\<rparr>))
       = fst (execute_trade (env_2026 V2) db_seed
            ((trade_of ''gh'' 8000 ''buy'')\<lparr>TradeRequest.transaction_type := ''sell''\<rparr>))"
    by blast
  from rejections [where e = "env_2026 V2" and d = db_seed
      and trade = "trade_of ''gh'' (- 3000) ''buy''"
      and detail = "''Insufficient bond supply''" and ttype = "''hold''"
      and stored = "seeded_bonds ! 0"] c
  have second: "fst (execute_trade (env_2026 V2) db_seed (trade_of ''gh'' (- 3000) ''buy''))
       \<noteq> Inl (HTTPException 400 ''Insufficient bond supply'')"
    by blast
  from a b c first second show ?thesis by blast
qed

subsection \<open>The portfolio caches\<close>

lemma buy_5_kenya_held_ghana:
  "execute_trade (env_2026 pv) db_bought (trade_of ''ke'' 5 ''buy'')
     = (Inr \<lparr>success = True, transaction_id = ''tx-new'', trade_price = 962.625,
             total_amount = 4813.125, new_portfolio_value = 9575\<rparr>,
        \<lparr>db.bonds = update_one_available_supply
                      (update_one_available_supply seeded_bonds ''gh'' 7495) ''ke'' 5495,
         transactions = [tx_bought,
                         tx_bought\<lparr>BondTransaction.bond_id := ''ke'',
                           price_per_bond := 962.625,
                           BondTransaction.total_amount := 4813.125\<rparr>],
         portfolios = [\<lparr>Portfolio.id = ''pf-new'', user_address = ''0xabc'',
                        bonds = [(''gh'', 5), (''ke'', 5)],
                        total_value = 9575, total_yield = 11.51,
                        created_at = mk_datetime 2026 11 3 11 0 0\<rparr>]\<rparr>)"
  by (cases pv) (simp_all add: trade_eval)

lemma seeded_yields:
  "calculate_dynamic_yield (seeded_bonds ! 0) (now (env_2026 pv)) = Inr 8.02"
  "calculate_dynamic_yield (seeded_bonds ! 1) (now (env_2026 pv)) = Inr 8.54"
  "calculate_dynamic_yield (seeded_bonds ! 2) (now (env_2026 pv)) = Inr 6.92"
  "calculate_dynamic_yield (seeded_bonds ! 3) (now (env_2026 pv)) = Inr 9.57"
  by (simp_all add: seeded_bonds_eq env_2026_def calculate_dynamic_yield_def date_defs
      round_defs Let_def)

text \<open>
  Claim C6: after a settlement the portfolio's \<open>total_yield\<close> is the average of the yields
  of the holdings, weighted by the share of each holding in the total value. The loop
  divides the term of each holding by the running total at that holding, not by the
  final total. In the store where the user holds 5 units of the Ghana bond (yield 8.02,
  value 4750), a buy of 5 units of the Kenya bond (yield 6.92, value 4825) leaves the
  holdings Ghana 5, Kenya 5 and stores \<open>total_yield = 11.51\<close>, which is
  \<open>8.02 * 4750 / 4750 + 6.92 * 4825 / 9575\<close> rounded; the weighted average is 7.47, and
  no average of 8.02 and 6.92 is above 8.02.
\<close>

theorem portfolio_yield_running_total:
  "map_option Portfolio.bonds
     (find_one_portfolio
        (portfolios (snd (execute_trade (env_2026 V2) db_bought (trade_of ''ke'' 5 ''buy''))))
        ''0xabc'') = Some [(''gh'', 5), (''ke'', 5)]
   \<and> map_option total_yield
     (find_one_portfolio
        (portfolios (snd (execute_trade (env_2026 V1) db_bought (trade_of ''ke'' 5 ''buy''))))
        ''0xabc'') = Some 11.51
   \<and> map_option total_yield
     (find_one_portfolio
        (portfolios (snd (execute_trade (env_2026 V2) db_bought (trade_of ''ke'' 5 ''buy''))))
        ''0xabc'') = Some 11.51
   \<and> calculate_dynamic_yield (seeded_bonds ! 0) (now (env_2026 V2)) = Inr 8.02
   \<and> calculate_dynamic_yield (seeded_bonds ! 2) (now (env_2026 V2)) = Inr 6.92
   \<and> round2 (spec_total_yield [(8.02, 950 * 5), (6.92, 965 * 5)]) = 7.47"
  by (simp add: buy_5_kenya_held_ghana seeded_yields)
     (simp add: find_one_portfolio_def spec_total_yield_def round_defs)

subsection \<open>Market statistics\<close>

lemma long_log_stats:
  "get_market_stats (env_2026 pv) db_long_log
     = Inr \<lparr>total_market_value = 48820000, total_volume_24h = 4697500,
            average_yield = 8.26, active_bonds = 4, total_transactions = 1000\<rparr>"
  by (cases pv)
     (simp_all add: get_market_stats_def db_long_log_def db_bought_def tx_bought_def
        seeded_bonds_eq env_2026_def Bond_validate_def int_field_def
        calculate_dynamic_yield_def date_defs round_defs Let_def sum_list_replicate)

lemma long_log_yields:
  "dynamic_yields (env_2026 pv) (take 1000 (db.bonds db_long_log)) = Inr [8.02, 8.54, 6.92, 9.57]"
  by (cases pv)
     (simp_all add: db_long_log_def db_bought_def seeded_bonds_eq env_2026_def
        Bond_validate_def int_field_def calculate_dynamic_yield_def date_defs round_defs Let_def)

lemma dynamic_yields_list_all2:
  "dynamic_yields e bs = Inr ys \<Longrightarrow>
     list_all2 (\<lambda>b y. \<exists>bond. Bond_validate (pydantic_version e) b = Inr bond
                          \<and> calculate_dynamic_yield bond (now e) = Inr y) bs ys"
  by (induction bs arbitrary: ys) (auto split: sum.splits)

text \<open>
  Claim C9, as stated: \<open>total_transactions\<close> is the size of the whole log however large
  the log is, and \<open>average_yield\<close> is the mean of the yields. It fails on the store whose
  log holds 1001 transactions, under either pydantic version: \<open>total_transactions\<close> is
  1000; and the yields of the four bonds are 8.02, 8.54, 6.92 and 9.57, with the mean
  8.2625, while \<open>average_yield\<close> is 8.26.
\<close>

theorem market_stats_counterexample:
  "length (transactions db_long_log) = 1001
   \<and> map_sum (\<lambda>err. err) total_transactions (get_market_stats (env_2026 V1) db_long_log)
       = Inr 1000
   \<and> map_sum (\<lambda>err. err) total_transactions (get_market_stats (env_2026 V2) db_long_log)
       = Inr 1000
   \<and> dynamic_yields (env_2026 V2) (take 1000 (db.bonds db_long_log))
       = Inr [8.02, 8.54, 6.92, 9.57]
   \<and> sum_list [8.02, 8.54, 6.92, 9.57] / 4 = (8.2625 :: real)
   \<and> map_sum (\<lambda>err. err) average_yield (get_market_stats (env_2026 V1) db_long_log) = Inr 8.26
   \<and> map_sum (\<lambda>err. err) average_yield (get_market_stats (env_2026 V2) db_long_log) = Inr 8.26"
  by (simp add: long_log_stats long_log_yields) (simp add: db_long_log_def)

text \<open>
  Claim C9, amended. For every catalog and transaction-log state, \<open>get_market_stats\<close>
  reads at most the first 1000 bonds and the first 1000 transactions. When every bond it
  reads validates and has a maturity date that parses, it returns, each rounded to 2
  decimal places, \<open>total_market_value\<close> = the sum of \<open>current_price * total_supply\<close> over
  the bonds read, \<open>total_volume_24h\<close> = the sum of \<open>total_amount\<close> over the transactions
  read whose timestamp is less than one day before the current instant, and
  \<open>average_yield\<close> = the mean of the Yield Engine over the bonds read (0 if the catalog is
  empty); and it returns \<open>active_bonds\<close> = the smaller of the catalog size and 1000 and
  \<open>total_transactions\<close> = the smaller of the log size and 1000. Otherwise it raises the
  error of the first bond that fails.
\<close>

theorem market_stats_formula:
  "get_market_stats e d =
     (case dynamic_yields e (take 1000 (db.bonds d)) of
        Inl err \<Rightarrow> Inl err
      | Inr ys \<Rightarrow>
          Inr \<lparr>total_market_value =
                 round2 (\<Sum>b\<leftarrow>take 1000 (db.bonds d). current_price b * of_int (total_supply b)),
               total_volume_24h =
                 round2 (\<Sum>tx\<leftarrow>filter (\<lambda>tx. now e - timestamp tx < usec_per_day)
                                   (take 1000 (transactions d)).
                           BondTransaction.total_amount tx),
               average_yield =
                 round2 (if db.bonds d = [] then 0
                         else sum_list ys / of_nat (min (length (db.bonds d)) 1000)),
               active_bonds = min (length (db.bonds d)) 1000,
               total_transactions = min (length (transactions d)) 1000\<rparr>)
   \<and> (\<forall>ys. dynamic_yields e (take 1000 (db.bonds d)) = Inr ys \<longrightarrow>
         list_all2 (\<lambda>b y. \<exists>bond. Bond_validate (pydantic_version e) b = Inr bond
                              \<and> calculate_dynamic_yield bond (now e) = Inr y)
           (take 1000 (db.bonds d)) ys)"
  by (auto simp add: get_market_stats_def Let_def dynamic_yields_list_all2 min_def
      split: sum.splits)

theorem market_stats_formula_witness:
  "dynamic_yields (env_2026 V2) (take 1000 (db.bonds db_long_log))
     = Inr [8.02, 8.54, 6.92, 9.57]
   \<and> get_market_stats (env_2026 V2) db_long_log
       = Inr \<lparr>total_market_value = 48820000, total_volume_24h = 4697500,
              average_yield = 8.26, active_bonds = 4, total_transactions = 1000\<rparr>
   \<and> list_all2 (\<lambda>b y. \<exists>bond. Bond_validate (pydantic_version (env_2026 V2)) b = Inr bond
                          \<and> calculate_dynamic_yield bond (now (env_2026 V2)) = Inr y)
       (take 1000 (db.bonds db_long_log)) [8.02, 8.54, 6.92, 9.57]"
proof -
  have ys: "dynamic_yields (env_2026 V2) (take 1000 (db.bonds db_long_log))
              = Inr [8.02, 8.54, 6.92, 9.57]"
    by (rule long_log_yields)
  from market_stats_formula [of "env_2026 V2" db_long_log] ys
  have "list_all2 (\<lambda>b y. \<exists>bond. Bond_validate (pydantic_version (env_2026 V2)) b = Inr bond
                          \<and> calculate_dynamic_yield bond (now (env_2026 V2)) = Inr y)
       (take 1000 (db.bonds db_long_log)) [8.02, 8.54, 6.92, 9.57]"
    by blast
  with ys long_log_stats [of V2] show ?thesis by simp
qed

end
